theory Spec2Isabelle
  imports Complex_Main
begin

section \<open>JavaScript values used by the pricing pipeline\<close>

text \<open>
  The checkout pricing pipeline is written in JavaScript. Amounts and rates are JavaScript
  numbers; the model takes them as exact reals (decimal inputs are rationals), so
  \<open>Math.round(x * 100) / 100\<close> is exact rounding to cents with halves rounded up. A lookup
  in a table can also give \<open>undefined\<close>, or a member that every object literal
  inherits from \<open>Object.prototype\<close> (a function or an object, never a number), and
  arithmetic on those gives \<open>NaN\<close>.
\<close>

datatype jsval = Num real | NaN | Undefined | Obj

fun truthy :: "jsval \<Rightarrow> bool" where
  "truthy (Num x) = (x \<noteq> 0)"
| "truthy NaN = False"
| "truthy Undefined = False"
| "truthy Obj = True"

text \<open>\<open>a || b\<close>\<close>

definition js_or :: "jsval \<Rightarrow> jsval \<Rightarrow> jsval" where
  "js_or a b = (if truthy a then a else b)"

text \<open>\<open>a * b\<close>: both operands are converted to numbers; anything but a number converts to NaN.\<close>

fun js_mul :: "jsval \<Rightarrow> jsval \<Rightarrow> jsval" where
  "js_mul (Num a) (Num b) = Num (a * b)"
| "js_mul _ _ = NaN"

text \<open>
  \<open>a + b\<close> on numbers, NaN and undefined (the only operands the pipeline adds; on an object
  the source would concatenate strings, which no path of the pipeline does).
\<close>

fun js_add :: "jsval \<Rightarrow> jsval \<Rightarrow> jsval" where
  "js_add (Num a) (Num b) = Num (a + b)"
| "js_add _ _ = NaN"

text \<open>\<open>Math.round(x * 100) / 100\<close>; \<open>Math.round\<close> rounds halves towards plus infinity.\<close>

definition round2 :: "real \<Rightarrow> real" where
  "round2 x = of_int \<lfloor>x * 100 + 1 / 2\<rfloor> / 100"

fun js_round2 :: "jsval \<Rightarrow> jsval" where
  "js_round2 (Num x) = Num (round2 x)"
| "js_round2 _ = NaN"

subsection \<open>Strings and property keys\<close>

text \<open>\<open>String.prototype.toUpperCase\<close> on ASCII strings.\<close>

definition lower_char :: "char \<Rightarrow> bool" where
  "lower_char c = (97 \<le> (of_char c :: nat) \<and> (of_char c :: nat) \<le> 122)"

definition upper_char :: "char \<Rightarrow> char" where
  "upper_char c = (if lower_char c then char_of ((of_char c :: nat) - 32) else c)"

definition toUpperCase :: "string \<Rightarrow> string" where
  "toUpperCase s = map upper_char s"

text \<open>
  \<open>state?.toUpperCase()\<close>: an absent (undefined or null) state stays undefined. Used as a
  property key or inside a template string, undefined reads \<open>undefined\<close>.
\<close>

definition opt_upper :: "string option \<Rightarrow> string option" where
  "opt_upper s = map_option toUpperCase s"

definition key_of :: "string option \<Rightarrow> string" where
  "key_of s = (case s of None \<Rightarrow> ''undefined'' | Some k \<Rightarrow> k)"

text \<open>\<open>xs.includes(v)\<close> for an array of strings: undefined is no element of it.\<close>

definition js_includes :: "string list \<Rightarrow> string option \<Rightarrow> bool" where
  "js_includes xs v = (case v of None \<Rightarrow> False | Some s \<Rightarrow> s \<in> set xs)"

text \<open>
  The tables of the pipeline are object literals. \<open>table[key]\<close> finds the table's own
  entry, or else a member inherited from \<open>Object.prototype\<close>, or else undefined. The
  inherited names are those of the language's \<open>Object.prototype\<close>.
\<close>

definition object_prototype_keys :: "string list" where
  "object_prototype_keys =
     [''constructor'', ''__defineGetter__'', ''__defineSetter__'', ''hasOwnProperty'',
      ''__lookupGetter__'', ''__lookupSetter__'', ''isPrototypeOf'', ''propertyIsEnumerable'',
      ''toString'', ''valueOf'', ''__proto__'', ''toLocaleString'']"

datatype 'a lookup = Own 'a | Inherited | Missing

definition js_get :: "(string \<times> 'a) list \<Rightarrow> string \<Rightarrow> 'a lookup" where
  "js_get table key =
     (case map_of table key of
        Some v \<Rightarrow> Own v
      | None \<Rightarrow> if key \<in> set object_prototype_keys then Inherited else Missing)"

text \<open>The value of a lookup in a table of numbers.\<close>

fun num_val :: "real lookup \<Rightarrow> jsval" where
  "num_val (Own r) = Num r"
| "num_val Inherited = Obj"
| "num_val Missing = Undefined"

section \<open>TaxCalculator (services/tax-calculator.js)\<close>

definition US_STATE_TAX_RATES :: "(string \<times> real) list" where
  "US_STATE_TAX_RATES =
     [(''AL'', 0.04), (''AK'', 0.00), (''AZ'', 0.056), (''AR'', 0.065), (''CA'', 0.0725),
      (''CO'', 0.029), (''CT'', 0.0635), (''DE'', 0.00), (''FL'', 0.06), (''GA'', 0.04),
      (''HI'', 0.04), (''ID'', 0.06), (''IL'', 0.0625), (''IN'', 0.07), (''IA'', 0.06),
      (''KS'', 0.065), (''KY'', 0.06), (''LA'', 0.0445), (''ME'', 0.055), (''MD'', 0.06),
      (''MA'', 0.0625), (''MI'', 0.06), (''MN'', 0.06875), (''MS'', 0.07), (''MO'', 0.04225),
      (''MT'', 0.00), (''NE'', 0.055), (''NV'', 0.0685), (''NH'', 0.00), (''NJ'', 0.06625),
      (''NM'', 0.05125), (''NY'', 0.04), (''NC'', 0.0475), (''ND'', 0.05), (''OH'', 0.0575),
      (''OK'', 0.045), (''OR'', 0.00), (''PA'', 0.06), (''RI'', 0.07), (''SC'', 0.06),
      (''SD'', 0.045), (''TN'', 0.07), (''TX'', 0.0625), (''UT'', 0.0485), (''VT'', 0.06),
      (''VA'', 0.043), (''WA'', 0.065), (''WV'', 0.06), (''WI'', 0.05), (''WY'', 0.04),
      (''DC'', 0.06), (''PR'', 0.105)]"

definition INTERNATIONAL_VAT_RATES :: "(string \<times> real) list" where
  "INTERNATIONAL_VAT_RATES =
     [(''AT'', 0.20), (''BE'', 0.21), (''BG'', 0.20), (''HR'', 0.25), (''CY'', 0.19),
      (''CZ'', 0.21), (''DK'', 0.25), (''EE'', 0.20), (''FI'', 0.24), (''FR'', 0.20),
      (''DE'', 0.19), (''GR'', 0.24), (''HU'', 0.27), (''IE'', 0.23), (''IT'', 0.22),
      (''LV'', 0.21), (''LT'', 0.21), (''LU'', 0.17), (''MT'', 0.18), (''NL'', 0.21),
      (''PL'', 0.23), (''PT'', 0.23), (''RO'', 0.19), (''SK'', 0.20), (''SI'', 0.22),
      (''ES'', 0.21), (''SE'', 0.25), (''GB'', 0.20), (''CH'', 0.077), (''NO'', 0.25),
      (''AU'', 0.10), (''NZ'', 0.15), (''CA'', 0.05), (''JP'', 0.10), (''SG'', 0.08),
      (''KR'', 0.10)]"

definition CANADIAN_PROVINCIAL_TAX :: "(string \<times> real) list" where
  "CANADIAN_PROVINCIAL_TAX =
     [(''AB'', 0.00), (''BC'', 0.07), (''MB'', 0.07), (''NB'', 0.10), (''NL'', 0.10),
      (''NT'', 0.00), (''NS'', 0.10), (''NU'', 0.00), (''ON'', 0.08), (''PE'', 0.10),
      (''QC'', 0.09975), (''SK'', 0.06), (''YT'', 0.00)]"

record category_info =
  taxable :: bool
  reducedRate :: bool

definition TAX_CATEGORIES :: "(string \<times> category_info) list" where
  "TAX_CATEGORIES =
     [(''apparel'', \<lparr>taxable = True, reducedRate = False\<rparr>),
      (''digital'', \<lparr>taxable = True, reducedRate = False\<rparr>),
      (''prints'', \<lparr>taxable = True, reducedRate = False\<rparr>),
      (''accessories'', \<lparr>taxable = True, reducedRate = False\<rparr>),
      (''limited'', \<lparr>taxable = True, reducedRate = False\<rparr>)]"

record tax_line =
  name :: string
  rate :: jsval
  amount :: jsval

text \<open>The result object of \<open>calculate\<close>; a jurisdiction of \<open>None\<close> is \<open>null\<close>.\<close>

record tax_result =
  subtotal :: real
  shipping :: real
  taxableAmount :: real
  taxRate :: jsval
  taxAmount :: jsval
  total :: jsval
  breakdown :: "tax_line list"
  jurisdiction :: "string option"

text \<open>
  The argument object of \<open>calculate\<close>. \<open>category\<close> and \<open>shipping\<close> have default
  parameters (\<open>'apparel'\<close> and \<open>0\<close>), applied when the field is absent.
\<close>

record tax_params =
  p_subtotal :: real
  p_country :: string
  p_state :: "string option"
  p_postalCode :: "string option"
  p_category :: "string option"
  p_shipping :: "real option"

definition statesTaxingShipping :: "string list" where
  "statesTaxingShipping =
     [''AR'', ''CT'', ''DC'', ''GA'', ''HI'', ''IN'', ''KS'', ''KY'',
      ''MI'', ''MN'', ''MS'', ''NE'', ''NJ'', ''NM'', ''NY'', ''NC'', ''ND'', ''OH'', ''PA'', ''SD'',
      ''TN'', ''TX'', ''VT'', ''WA'', ''WV'', ''WI'']"

text \<open>\<open>calculateUSTax\<close>; the first argument is the calculator's \<open>nexusStates\<close>.\<close>

definition calculateUSTax ::
  "string list \<Rightarrow> tax_result \<Rightarrow> string option \<Rightarrow> string option \<Rightarrow> real \<Rightarrow> tax_result" where
  "calculateUSTax nexusStates result state postalCode shipping' =
     (let stateCode = opt_upper state in
      if length nexusStates > 0 \<and> \<not> js_includes nexusStates stateCode
      then result\<lparr>jurisdiction := Some (key_of stateCode @ '' - No nexus'')\<rparr>
      else
        let stateTaxRate = js_or (num_val (js_get US_STATE_TAX_RATES (key_of stateCode))) (Num 0) in
        if stateTaxRate = Num 0
        then result\<lparr>jurisdiction := Some (key_of stateCode @ '' - No state sales tax'')\<rparr>
        else
          let taxableAmount' =
                (if js_includes statesTaxingShipping stateCode
                 then subtotal result + shipping'
                 else subtotal result);
              taxAmount' = js_round2 (js_mul (Num taxableAmount') stateTaxRate)
          in result\<lparr>taxableAmount := taxableAmount',
                    taxRate := stateTaxRate,
                    taxAmount := taxAmount',
                    total := js_add (Num (subtotal result + shipping')) taxAmount',
                    jurisdiction := Some (key_of stateCode),
                    breakdown := breakdown result @
                      [\<lparr>name = key_of stateCode @ '' State Sales Tax'',
                        rate = stateTaxRate, amount = taxAmount'\<rparr>]\<rparr>)"

definition hstProvinces :: "string list" where
  "hstProvinces = [''NB'', ''NL'', ''NS'', ''ON'', ''PE'']"

text \<open>\<open>provincialRate > 0\<close>: a comparison with undefined, NaN or an object is false.\<close>

fun js_gt0 :: "jsval \<Rightarrow> bool" where
  "js_gt0 (Num x) = (x > 0)"
| "js_gt0 _ = False"

definition calculateCanadianTax ::
  "tax_result \<Rightarrow> string option \<Rightarrow> real \<Rightarrow> tax_result" where
  "calculateCanadianTax result province shipping' =
     (let provinceCode = opt_upper province;
          gstRate = 0.05;
          provincialRate =
            js_or (num_val (js_get CANADIAN_PROVINCIAL_TAX (key_of provinceCode))) (Num 0);
          taxableAmount' = subtotal result + shipping';
          gstAmount = js_round2 (js_mul (Num taxableAmount') (Num gstRate));
          pstAmount = js_round2 (js_mul (Num taxableAmount') provincialRate);
          totalTax = js_add gstAmount pstAmount;
          result1 = result\<lparr>taxableAmount := taxableAmount',
                            taxRate := js_add (Num gstRate) provincialRate,
                            taxAmount := totalTax,
                            total := js_add (Num (subtotal result + shipping')) totalTax,
                            jurisdiction := Some (''CA-'' @ key_of provinceCode),
                            breakdown := breakdown result @
                              [\<lparr>name = ''GST'', rate = Num gstRate, amount = gstAmount\<rparr>]\<rparr>
      in if js_gt0 provincialRate
         then
           let taxName =
                 (if js_includes hstProvinces provinceCode then ''HST (provincial portion)''
                  else if provinceCode = Some ''QC'' then ''QST''
                  else ''PST'')
           in result1\<lparr>breakdown := breakdown result1 @
                        [\<lparr>name = taxName, rate = provincialRate, amount = pstAmount\<rparr>]\<rparr>
         else result1)"

definition calculateVAT :: "tax_result \<Rightarrow> string \<Rightarrow> real \<Rightarrow> tax_result" where
  "calculateVAT result country shipping' =
     (let vatRate = js_or (num_val (js_get INTERNATIONAL_VAT_RATES country)) (Num 0) in
      if vatRate = Num 0 then result
      else
        let taxableAmount' = subtotal result + shipping';
            vatAmount = js_round2 (js_mul (Num taxableAmount') vatRate)
        in result\<lparr>taxableAmount := taxableAmount',
                  taxRate := vatRate,
                  taxAmount := vatAmount,
                  total := js_add (Num (subtotal result + shipping')) vatAmount,
                  jurisdiction := Some country,
                  breakdown := breakdown result @
                    [\<lparr>name = ''VAT'', rate = vatRate, amount = vatAmount\<rparr>]\<rparr>)"

text \<open>
  The category gate: \<open>categoryInfo = TAX_CATEGORIES[category] || TAX_CATEGORIES['apparel']\<close>
  and then \<open>categoryInfo.taxable\<close>. An own entry gives its flag; an inherited member is
  truthy, so it is kept, and has no \<open>taxable\<close> property (undefined, which is falsy); a
  missing key falls back to the entry of \<open>'apparel'\<close>.
\<close>

definition category_taxable :: "string \<Rightarrow> bool" where
  "category_taxable category =
     (case js_get TAX_CATEGORIES category of
        Own info \<Rightarrow> taxable info
      | Inherited \<Rightarrow> False
      | Missing \<Rightarrow>
          (case js_get TAX_CATEGORIES ''apparel'' of Own info \<Rightarrow> taxable info | _ \<Rightarrow> False))"

text \<open>The default parameters \<open>category = 'apparel'\<close> and \<open>shipping = 0\<close>.\<close>

definition category_of :: "tax_params \<Rightarrow> string" where
  "category_of p = (case p_category p of None \<Rightarrow> ''apparel'' | Some c \<Rightarrow> c)"

definition shipping_of :: "tax_params \<Rightarrow> real" where
  "shipping_of p = (case p_shipping p of None \<Rightarrow> 0 | Some s \<Rightarrow> s)"

text \<open>\<open>calculate\<close>; the first argument is the calculator's \<open>nexusStates\<close>.\<close>

definition calculate :: "string list \<Rightarrow> tax_params \<Rightarrow> tax_result" where
  "calculate nexusStates p =
     (let category = category_of p;
          shipping' = shipping_of p;
          result = \<lparr>subtotal = p_subtotal p,
                    shipping = shipping',
                    taxableAmount = p_subtotal p,
                    taxRate = Num 0,
                    taxAmount = Num 0,
                    total = Num (p_subtotal p + shipping'),
                    breakdown = [],
                    jurisdiction = None\<rparr>
      in if \<not> category_taxable category then result
         else if p_country p = ''US''
           then calculateUSTax nexusStates result (p_state p) (p_postalCode p) shipping'
         else if p_country p = ''CA''
           then calculateCanadianTax result (p_state p) shipping'
         else if truthy (num_val (js_get INTERNATIONAL_VAT_RATES (p_country p)))
           then calculateVAT result (p_country p) shipping'
         else result)"

text \<open>The singleton \<open>taxCalculator = new TaxCalculator([])\<close> that the routes use.\<close>

definition taxCalculator :: "string list" where
  "taxCalculator = []"

section \<open>ShippingCalculator (services/shipping-calculator.js)\<close>

text \<open>
  \<open>US_SHIPPING_ZONES\<close> and \<open>INTERNATIONAL_ZONES\<close>, in the order in which
  \<open>Object.entries\<close> lists them.
\<close>

definition US_SHIPPING_ZONES :: "(nat \<times> string list) list" where
  "US_SHIPPING_ZONES =
     [(1, [''CA'', ''NV'', ''AZ'']),
      (2, [''OR'', ''WA'', ''ID'', ''MT'', ''WY'', ''UT'', ''CO'', ''NM'']),
      (3, [''ND'', ''SD'', ''NE'', ''KS'', ''OK'', ''TX'', ''MN'', ''IA'', ''MO'', ''AR'', ''LA'']),
      (4, [''WI'', ''IL'', ''MI'', ''IN'', ''OH'', ''KY'', ''TN'', ''MS'', ''AL'']),
      (5, [''ME'', ''NH'', ''VT'', ''MA'', ''RI'', ''CT'', ''NY'', ''NJ'', ''PA'', ''DE'', ''MD'',
           ''DC'', ''VA'', ''WV'', ''NC'', ''SC'', ''GA'', ''FL'']),
      (6, [''AK'', ''HI'', ''PR'', ''VI'', ''GU'', ''AS''])]"

definition INTERNATIONAL_ZONES :: "(string \<times> string list) list" where
  "INTERNATIONAL_ZONES =
     [(''A'', [''CA'', ''MX'']),
      (''B'', [''GB'', ''DE'', ''FR'', ''NL'', ''BE'', ''AT'', ''CH'', ''IE'', ''DK'', ''SE'', ''NO'', ''FI'']),
      (''C'', [''PL'', ''CZ'', ''HU'', ''RO'', ''BG'', ''SK'', ''SI'', ''HR'', ''EE'', ''LV'', ''LT'']),
      (''D'', [''JP'', ''KR'', ''AU'', ''NZ'', ''SG'', ''HK'', ''TW'']),
      (''E'', [])]"

definition US_standard :: "(nat \<times> real) list" where
  "US_standard = [(1, 5.99), (2, 6.99), (3, 7.99), (4, 8.99), (5, 9.99), (6, 14.99)]"

definition US_express :: "(nat \<times> real) list" where
  "US_express = [(1, 12.99), (2, 14.99), (3, 16.99), (4, 18.99), (5, 19.99), (6, 29.99)]"

definition US_overnight :: "(nat \<times> real) list" where
  "US_overnight = [(1, 24.99), (2, 29.99), (3, 34.99), (4, 39.99), (5, 44.99), (6, 59.99)]"

definition SHIPPING_RATES_US :: "(string \<times> (nat \<times> real) list) list" where
  "SHIPPING_RATES_US =
     [(''standard'', US_standard), (''express'', US_express), (''overnight'', US_overnight)]"

definition international_standard :: "(string \<times> real) list" where
  "international_standard =
     [(''A'', 12.99), (''B'', 19.99), (''C'', 24.99), (''D'', 29.99), (''E'', 34.99)]"

definition international_express :: "(string \<times> real) list" where
  "international_express =
     [(''A'', 24.99), (''B'', 39.99), (''C'', 49.99), (''D'', 59.99), (''E'', 69.99)]"

definition SHIPPING_RATES_international :: "(string \<times> (string \<times> real) list) list" where
  "SHIPPING_RATES_international =
     [(''standard'', international_standard), (''express'', international_express)]"

definition WEIGHT_SURCHARGES_US :: real where
  "WEIGHT_SURCHARGES_US = 0.50"

definition WEIGHT_SURCHARGES_international :: real where
  "WEIGHT_SURCHARGES_international = 1.50"

record method_info =
  mi_name :: string
  mi_description :: string
  estimatedDays :: "nat \<times> nat"

definition SHIPPING_METHODS :: "(string \<times> method_info) list" where
  "SHIPPING_METHODS =
     [(''standard'', \<lparr>mi_name = ''Standard Shipping'',
         mi_description = ''Delivered in 5-7 business days'', estimatedDays = (5, 7)\<rparr>),
      (''express'', \<lparr>mi_name = ''Express Shipping'',
         mi_description = ''Delivered in 2-3 business days'', estimatedDays = (2, 3)\<rparr>),
      (''overnight'', \<lparr>mi_name = ''Overnight Shipping'',
         mi_description = ''Delivered next business day'', estimatedDays = (1, 1)\<rparr>)]"

definition INTERNATIONAL_METHODS :: "(string \<times> method_info) list" where
  "INTERNATIONAL_METHODS =
     [(''standard'', \<lparr>mi_name = ''International Standard'',
         mi_description = ''Delivered in 10-21 business days'', estimatedDays = (10, 21)\<rparr>),
      (''express'', \<lparr>mi_name = ''International Express'',
         mi_description = ''Delivered in 5-10 business days'', estimatedDays = (5, 10)\<rparr>)]"

definition FREE_SHIPPING_US_threshold :: real where
  "FREE_SHIPPING_US_threshold = 75"

definition FREE_SHIPPING_international_threshold :: real where
  "FREE_SHIPPING_international_threshold = 150"

definition FREE_SHIPPING_US_method :: string where
  "FREE_SHIPPING_US_method = ''standard''"

definition FREE_SHIPPING_international_method :: string where
  "FREE_SHIPPING_international_method = ''standard''"

text \<open>
  The calculator object: \<open>options.freeShippingEnabled ?? true\<close> and
  \<open>options.handlingFee ?? 0\<close>. The routes use the singleton built with no options.
\<close>

record shipping_calculator =
  freeShippingEnabled :: bool
  handlingFee :: real

definition shippingCalculator :: shipping_calculator where
  "shippingCalculator = \<lparr>freeShippingEnabled = True, handlingFee = 0\<rparr>"

text \<open>
  The first zone whose list includes the code, as the \<open>for\<close> loops over
  \<open>Object.entries\<close> do.
\<close>

fun find_zone :: "('z \<times> string list) list \<Rightarrow> string option \<Rightarrow> 'z option" where
  "find_zone [] code = None"
| "find_zone ((z, names) # rest) code =
     (if js_includes names code then Some z else find_zone rest code)"

definition getUSZone :: "string option \<Rightarrow> nat" where
  "getUSZone state =
     (case find_zone US_SHIPPING_ZONES (opt_upper state) of Some z \<Rightarrow> z | None \<Rightarrow> 5)"

definition getInternationalZone :: "string \<Rightarrow> string" where
  "getInternationalZone country =
     (case find_zone INTERNATIONAL_ZONES (opt_upper (Some country)) of
        Some z \<Rightarrow> z
      | None \<Rightarrow> ''E'')"

definition getAvailableMethods :: "string \<Rightarrow> string list" where
  "getAvailableMethods country =
     (if country = ''US'' then [''standard'', ''express'', ''overnight'']
      else [''standard'', ''express''])"

text \<open>
  The object \<open>checkFreeShipping\<close> returns. With free shipping disabled it is
  \<open>{ eligible: false }\<close> and the other properties are absent (\<open>None\<close>). The message
  is kept as its kind and the amount that \<open>toFixed(2)\<close> prints.
\<close>

datatype fs_message = Qualifies | AddMore real

record free_shipping =
  eligible :: bool
  threshold :: "real option"
  fs_method :: "string option"
  amountUntilFree :: "real option"
  message :: "fs_message option"

definition checkFreeShipping ::
  "shipping_calculator \<Rightarrow> string \<Rightarrow> real \<Rightarrow> string \<Rightarrow> free_shipping" where
  "checkFreeShipping this country subtotal' requestedMethod =
     (if \<not> freeShippingEnabled this
      then \<lparr>eligible = False, threshold = None, fs_method = None,
             amountUntilFree = None, message = None\<rparr>
      else
        let threshold' = (if country = ''US'' then FREE_SHIPPING_US_threshold
                          else FREE_SHIPPING_international_threshold);
            freeMethod = (if country = ''US'' then FREE_SHIPPING_US_method
                          else FREE_SHIPPING_international_method);
            eligible' = (subtotal' \<ge> threshold')
        in \<lparr>eligible = eligible',
            threshold = Some threshold',
            fs_method = Some freeMethod,
            amountUntilFree = Some (if eligible' then 0 else round2 (threshold' - subtotal')),
            message = Some (if eligible' then Qualifies else AddMore (threshold' - subtotal'))\<rparr>)"

subsection \<open>Delivery estimates\<close>

text \<open>
  A \<open>Date\<close> is its time value, the milliseconds since the epoch; \<open>toISOString\<close> prints
  that value to the millisecond, so the model keeps the value itself. The server's local
  time is taken to be UTC: \<open>setDate(getDate() + 1)\<close> adds one day and \<open>getDay\<close> is the
  weekday of the UTC day (0 is Sunday; the epoch was a Thursday). The \<open>formatted\<close>
  property, a printed form of the same two dates, is left out.
\<close>

definition msPerDay :: nat where
  "msPerDay = 86400000"

definition getDay :: "nat \<Rightarrow> nat" where
  "getDay date = (date div msPerDay + 4) mod 7"

text \<open>Weekend days that follow a date without a break; the loop below skips them.\<close>

definition weekend_ahead :: "nat \<Rightarrow> nat" where
  "weekend_ahead date =
     (if getDay (date + msPerDay) = 6 then 2 else if getDay (date + msPerDay) = 0 then 1 else 0)"

function addBusinessDays_loop :: "nat \<Rightarrow> nat \<Rightarrow> nat \<Rightarrow> nat" where
  "addBusinessDays_loop result added days =
     (if added < days
      then
        let result' = result + msPerDay;
            dayOfWeek = getDay result'
        in if dayOfWeek \<noteq> 0 \<and> dayOfWeek \<noteq> 6
           then addBusinessDays_loop result' (added + 1) days
           else addBusinessDays_loop result' added days
      else result)"
  by pat_completeness auto
termination
proof (relation "measure (\<lambda>(result, added, days). 3 * (days - added) + weekend_ahead result)")
  show "wf (measure (\<lambda>(result, added, days). 3 * (days - added) + weekend_ahead result))"
    by simp
next
  fix result added days :: nat and x xa :: nat
  assume a: "added < days" and x: "x = result + msPerDay" and xa: "xa = getDay x"
    and wd: "xa \<noteq> 0 \<and> xa \<noteq> 6"
  have "weekend_ahead result = 0"
    using x xa wd by (simp add: weekend_ahead_def)
  moreover have "weekend_ahead x \<le> 2"
    by (simp add: weekend_ahead_def)
  ultimately show "((x, added + 1, days), (result, added, days))
      \<in> measure (\<lambda>(result, added, days). 3 * (days - added) + weekend_ahead result)"
    using a by simp
next
  fix result added days :: nat and x xa :: nat
  assume a: "added < days" and x: "x = result + msPerDay" and xa: "xa = getDay x"
    and we: "\<not> (xa \<noteq> 0 \<and> xa \<noteq> 6)"
  have step: "getDay (x + msPerDay) = (getDay x + 1) mod 7"
    by (simp add: getDay_def msPerDay_def mod_simps)
  have "weekend_ahead x < weekend_ahead result"
    using x xa we step by (auto simp add: weekend_ahead_def)
  then show "((x, added, days), (result, added, days))
      \<in> measure (\<lambda>(result, added, days). 3 * (days - added) + weekend_ahead result)"
    by simp
qed

definition addBusinessDays :: "nat \<Rightarrow> nat \<Rightarrow> nat" where
  "addBusinessDays date days = addBusinessDays_loop date 0 days"

record delivery_estimate =
  minDate :: nat
  maxDate :: nat
  businessDays :: "nat \<times> nat"

text \<open>\<open>getDeliveryEstimate\<close>; \<open>today\<close> is the value of \<open>new Date()\<close>.\<close>

definition getDeliveryEstimate :: "nat \<Rightarrow> nat \<times> nat \<Rightarrow> delivery_estimate" where
  "getDeliveryEstimate today days =
     \<lparr>minDate = addBusinessDays today (fst days),
      maxDate = addBusinessDays today (snd days),
      businessDays = days\<rparr>"

subsection \<open>Quotes\<close>

text \<open>
  \<open>SHIPPING_RATES.US[method]?.[zone]\<close>: the method's own rate table read at the zone. An
  inherited member (a function, or \<open>Object.prototype\<close> itself) has no property named by
  a zone, and a missing method stops the optional chain: both give undefined.
\<close>

definition rate_of :: "(string \<times> ('z \<times> real) list) list \<Rightarrow> string \<Rightarrow> 'z \<Rightarrow> jsval" where
  "rate_of table method zone =
     (case js_get table method of
        Own rates \<Rightarrow> (case map_of rates zone of Some r \<Rightarrow> Num r | None \<Rightarrow> Undefined)
      | Inherited \<Rightarrow> Undefined
      | Missing \<Rightarrow> Undefined)"

text \<open>
  \<open>methodInfo?.name\<close>, \<open>methodInfo?.description\<close> and \<open>methodInfo?.estimatedDays\<close>. An
  inherited function has a \<open>name\<close> (its own, \<open>Object\<close> for the constructor) and
  neither of the other two; \<open>Object.prototype\<close> has none of them.
\<close>

definition info_name :: "(string \<times> method_info) list \<Rightarrow> string \<Rightarrow> string option" where
  "info_name table method =
     (case js_get table method of
        Own info \<Rightarrow> Some (mi_name info)
      | Inherited \<Rightarrow>
          (if method = ''constructor'' then Some ''Object''
           else if method = ''__proto__'' then None
           else Some method)
      | Missing \<Rightarrow> None)"

definition info_description :: "(string \<times> method_info) list \<Rightarrow> string \<Rightarrow> string option" where
  "info_description table method =
     (case js_get table method of Own info \<Rightarrow> Some (mi_description info) | _ \<Rightarrow> None)"

definition info_estimatedDays :: "(string \<times> method_info) list \<Rightarrow> string \<Rightarrow> (nat \<times> nat) option" where
  "info_estimatedDays table method =
     (case js_get table method of Own info \<Rightarrow> Some (estimatedDays info) | _ \<Rightarrow> None)"

datatype zone = USZone nat | IntlZone string

record shipping_quote =
  q_method :: string
  methodName :: string
  description :: "string option"
  q_zone :: zone
  baseRate :: jsval
  weightSurcharge :: real
  q_handlingFee :: real
  q_total :: jsval
  freeShipping :: free_shipping
  deliveryEstimate :: delivery_estimate
  availableMethods :: "string list"

text \<open>
  The argument object of \<open>ShippingCalculator.calculate\<close>; \<open>weight\<close>, \<open>subtotal\<close>
  and \<open>method\<close> have the default parameters \<open>1\<close>, \<open>0\<close> and \<open>'standard'\<close>.
\<close>

record shipping_params =
  s_country :: string
  s_state :: "string option"
  s_weight :: "real option"
  s_subtotal :: "real option"
  s_method :: "string option"

definition weight_of :: "shipping_params \<Rightarrow> real" where
  "weight_of p = (case s_weight p of None \<Rightarrow> 1 | Some w \<Rightarrow> w)"

definition subtotal_of :: "shipping_params \<Rightarrow> real" where
  "subtotal_of p = (case s_subtotal p of None \<Rightarrow> 0 | Some s \<Rightarrow> s)"

definition method_of :: "shipping_params \<Rightarrow> string" where
  "method_of p = (case s_method p of None \<Rightarrow> ''standard'' | Some m \<Rightarrow> m)"

text \<open>
  \<open>ShippingCalculator.calculate\<close>; \<open>today\<close> is the value of \<open>new Date()\<close> that
  \<open>getDeliveryEstimate\<close> reads.
\<close>

definition ship_calculate :: "shipping_calculator \<Rightarrow> nat \<Rightarrow> shipping_params \<Rightarrow> shipping_quote" where
  "ship_calculate this today p =
     (let country = s_country p;
          weight = weight_of p;
          subtotal' = subtotal_of p;
          method = method_of p;
          isUS = (country = ''US'');
          availableMethods' = getAvailableMethods country;
          freeShipping' = checkFreeShipping this country subtotal' method;
          zone = (if isUS then USZone (getUSZone (s_state p))
                  else IntlZone (getInternationalZone country));
          baseRate' =
            (if isUS
             then js_or (rate_of SHIPPING_RATES_US method (getUSZone (s_state p)))
                        (rate_of SHIPPING_RATES_US ''standard'' (getUSZone (s_state p)))
             else js_or (rate_of SHIPPING_RATES_international method (getInternationalZone country))
                        (rate_of SHIPPING_RATES_international ''standard''
                           (getInternationalZone country)));
          extraWeight = max 0 (weight - 1);
          weightSurcharge' =
            extraWeight * (if isUS then WEIGHT_SURCHARGES_US else WEIGHT_SURCHARGES_international);
          total0 = js_add (js_add baseRate' (Num weightSurcharge')) (Num (handlingFee this));
          total1 = (if eligible freeShipping' \<and> Some method = fs_method freeShipping'
                    then Num 0 else total0);
          methods = (if isUS then SHIPPING_METHODS else INTERNATIONAL_METHODS);
          deliveryEstimate' =
            getDeliveryEstimate today
              (case info_estimatedDays methods method of Some d \<Rightarrow> d | None \<Rightarrow> (5, 10))
      in \<lparr>q_method = method,
          methodName =
            (case info_name methods method of
               Some n \<Rightarrow> if n = [] then ''Standard Shipping'' else n
             | None \<Rightarrow> ''Standard Shipping''),
          description = info_description methods method,
          q_zone = zone,
          baseRate = baseRate',
          weightSurcharge = weightSurcharge',
          q_handlingFee = handlingFee this,
          q_total = js_round2 total1,
          freeShipping = freeShipping',
          deliveryEstimate = deliveryEstimate',
          availableMethods = availableMethods'\<rparr>)"

section \<open>The persisted state (config/database.js, init-db.js)\<close>

text \<open>
  The tables the checkout routes read and write, with the columns they use. A
  \<open>DECIMAL\<close> column read through the connection pool is a JavaScript number when the
  pool's \<open>decimalNumbers\<close> option is set and a string otherwise (the driver's choice; the
  \<open>dbConfig\<close> of the source does not set the option). The \<open>items\<close> column holds
  \<open>JSON.stringify\<close> of the line items and is read back with \<open>JSON.parse\<close>; the model
  keeps the list. Times of the database (\<open>NOW()\<close>, \<open>expires_at\<close>) are in seconds.
\<close>

record product =
  prod_id :: nat
  title :: string
  price :: real
  prod_category :: string
  prod_weight :: "real option"
  inventory_count :: int
  is_digital :: bool
  is_active :: bool

record cart_item =
  productId :: nat
  quantity :: int

record line_item =
  li_productId :: nat
  li_title :: string
  li_price :: real
  li_quantity :: int
  li_category :: string
  isDigital :: "bool option"

record address =
  line1 :: string
  city :: string
  a_state :: "string option"
  a_postalCode :: "string option"
  a_country :: string

record session_row =
  session_id :: string
  ss_email :: string
  ss_items :: "line_item list"
  shipping_address :: address
  billing_address :: address
  ss_subtotal :: real
  shipping_cost :: real
  shipping_method :: string
  tax_amount :: real
  ss_total :: real
  expires_at :: nat

datatype jsdec = DecNum real | DecStr real

record order_row =
  order_number :: string
  customer_email :: string
  customer_name :: string
  customer_phone :: "string option"
  o_shipping_address :: address
  o_billing_address :: address
  o_items :: "line_item list"
  o_subtotal :: jsdec
  o_shipping :: jsdec
  o_tax :: jsdec
  o_total :: jsdec
  o_shipping_method :: string
  payment_intent_id :: "string option"
  status :: string

record database =
  products :: "product list"
  checkout_sessions :: "session_row list"
  orders :: "order_row list"
  decimalNumbers :: bool

definition read_decimal :: "database \<Rightarrow> real \<Rightarrow> jsdec" where
  "read_decimal db v = (if decimalNumbers db then DecNum v else DecStr v)"

text \<open>\<open>db.get('SELECT * FROM products WHERE id = ? AND is_active = 1', [id])\<close>\<close>

definition get_product :: "database \<Rightarrow> nat \<Rightarrow> product option" where
  "get_product db pid = find (\<lambda>p. prod_id p = pid \<and> is_active p) (products db)"

text \<open>\<open>db.get('SELECT * FROM checkout_sessions WHERE session_id = ?', [sessionId])\<close>\<close>

definition get_session :: "database \<Rightarrow> string \<Rightarrow> session_row option" where
  "get_session db sid = find (\<lambda>s. session_id s = sid) (checkout_sessions db)"

text \<open>\<open>UPDATE products SET inventory_count = inventory_count - ? WHERE id = ?\<close>\<close>

definition decrement_stock :: "int \<Rightarrow> nat \<Rightarrow> database \<Rightarrow> database" where
  "decrement_stock qty pid db =
     db\<lparr>products :=
          map (\<lambda>p. if prod_id p = pid then p\<lparr>inventory_count := inventory_count p - qty\<rparr> else p)
            (products db)\<rparr>"

text \<open>\<open>DELETE FROM checkout_sessions WHERE session_id = ?\<close>\<close>

definition delete_session :: "string \<Rightarrow> database \<Rightarrow> database" where
  "delete_session sid db =
     db\<lparr>checkout_sessions := filter (\<lambda>s. session_id s \<noteq> sid) (checkout_sessions db)\<rparr>"

section \<open>The checkout routes (routes/checkout.js)\<close>

datatype api_error =
    ValidationErrors "string list"
  | ProductNotFound nat
  | InsufficientStock string
  | SessionNotFound
  | ServerError string

fun http_status :: "api_error + 'a \<Rightarrow> nat" where
  "http_status (Inr _) = 200"
| "http_status (Inl (ValidationErrors _)) = 400"
| "http_status (Inl (ProductNotFound _)) = 400"
| "http_status (Inl (InsufficientStock _)) = 400"
| "http_status (Inl SessionNotFound) = 404"
| "http_status (Inl (ServerError _)) = 500"

text \<open>\<open>product.weight || 0.5\<close>\<close>

definition weight_or_default :: "product \<Rightarrow> real" where
  "weight_or_default product =
     (case prod_weight product of None \<Rightarrow> 0.5 | Some w \<Rightarrow> if w = 0 then 0.5 else w)"

subsection \<open>POST /calculate\<close>

record calc_request =
  c_items :: "cart_item list"
  c_country :: string
  c_state :: "string option"
  c_postalCode :: "string option"
  c_shippingMethod :: "string option"

record calc_shipping =
  cs_method :: string
  cs_methodName :: string
  cost :: jsval
  cs_deliveryEstimate :: delivery_estimate
  cs_freeShipping :: free_shipping

record calc_tax =
  ct_rate :: jsval
  ct_amount :: jsval
  ct_breakdown :: "tax_line list"
  ct_jurisdiction :: "string option"

record calc_body =
  cb_items :: "line_item list"
  cb_subtotal :: real
  cb_shipping :: calc_shipping
  cb_tax :: calc_tax
  cb_total :: jsval
  currency :: string

text \<open>
  The loop over the cart: the first product that is missing or inactive ends the request
  with its id; otherwise the subtotal, the weight and the validated items accumulate.
\<close>

fun calc_items ::
  "database \<Rightarrow> cart_item list \<Rightarrow> real \<times> real \<times> line_item list
     \<Rightarrow> nat + (real \<times> real \<times> line_item list)" where
  "calc_items db [] acc = Inr acc"
| "calc_items db (item # rest) (subtotal', totalWeight, validatedItems) =
     (case get_product db (productId item) of
        None \<Rightarrow> Inl (productId item)
      | Some product \<Rightarrow>
          calc_items db rest
            (subtotal' + price product * of_int (quantity item),
             totalWeight + weight_or_default product * of_int (quantity item),
             validatedItems @
               [\<lparr>li_productId = prod_id product, li_title = title product,
                 li_price = price product, li_quantity = quantity item,
                 li_category = prod_category product, isDigital = None\<rparr>]))"

definition calc_validation :: "calc_request \<Rightarrow> string list" where
  "calc_validation req =
     (if c_items req = [] then [''Cart items required''] else []) @
     (if c_country req = [] then [''Country is required''] else [])"

text \<open>
  The handler, as a function of the clock (\<open>new Date()\<close>, in milliseconds), the database
  and the request body; it returns the response and the database it leaves. The shipping
  total is a number for every request (lemma \<open>ship_total_number\<close> below), so the branch
  for a quote without a numeric total is never taken.
\<close>

definition calculate_route ::
  "nat \<Rightarrow> database \<Rightarrow> calc_request \<Rightarrow> (api_error + calc_body) \<times> database" where
  "calculate_route now db req =
     (if calc_validation req \<noteq> [] then (Inl (ValidationErrors (calc_validation req)), db)
      else
        let shippingMethod = (case c_shippingMethod req of None \<Rightarrow> ''standard'' | Some m \<Rightarrow> m) in
        case calc_items db (c_items req) (0, 0, []) of
          Inl pid \<Rightarrow> (Inl (ProductNotFound pid), db)
        | Inr (subtotal', totalWeight, validatedItems) \<Rightarrow>
            let shipping' = ship_calculate shippingCalculator now
                  \<lparr>s_country = c_country req, s_state = c_state req,
                   s_weight = Some totalWeight, s_subtotal = Some subtotal',
                   s_method = Some shippingMethod\<rparr>
            in (case q_total shipping' of
                 Num shippingTotal \<Rightarrow>
                   let tax = calculate taxCalculator
                         \<lparr>p_subtotal = subtotal', p_country = c_country req,
                          p_state = c_state req, p_postalCode = c_postalCode req,
                          p_category = None, p_shipping = Some shippingTotal\<rparr>;
                       total' = js_add (Num (subtotal' + shippingTotal)) (taxAmount tax)
                   in (Inr \<lparr>cb_items = validatedItems,
                            cb_subtotal = round2 subtotal',
                            cb_shipping =
                              \<lparr>cs_method = q_method shipping',
                               cs_methodName = methodName shipping',
                               cost = q_total shipping',
                               cs_deliveryEstimate = deliveryEstimate shipping',
                               cs_freeShipping = freeShipping shipping'\<rparr>,
                            cb_tax =
                              \<lparr>ct_rate = taxRate tax, ct_amount = taxAmount tax,
                               ct_breakdown = breakdown tax,
                               ct_jurisdiction = jurisdiction tax\<rparr>,
                            cb_total = js_round2 total',
                            currency = ''USD''\<rparr>, db)
               | _ \<Rightarrow> (Inl (ServerError ''Failed to calculate order''), db)))"

subsection \<open>POST /create-session\<close>

record session_request =
  sr_items :: "cart_item list"
  sr_email :: string
  sr_shippingAddress :: address
  sr_billingAddress :: "address option"
  sr_shippingMethod :: "string option"

record session_shipping =
  sh_method :: string
  sh_methodName :: string
  sh_cost :: jsval
  sh_deliveryEstimate :: delivery_estimate

record session_body =
  sb_sessionId :: string
  sb_email :: string
  sb_items :: "line_item list"
  sb_shippingAddress :: address
  sb_shipping :: session_shipping
  sb_tax :: calc_tax
  sb_subtotal :: real
  sb_total :: jsval
  expiresAt :: nat

text \<open>The loop over the cart, with the stock check of the lines that are not digital.\<close>

fun session_items ::
  "database \<Rightarrow> cart_item list \<Rightarrow> real \<times> real \<times> line_item list
     \<Rightarrow> api_error + (real \<times> real \<times> line_item list)" where
  "session_items db [] acc = Inr acc"
| "session_items db (item # rest) (subtotal', totalWeight, orderItems) =
     (case get_product db (productId item) of
        None \<Rightarrow> Inl (ProductNotFound (productId item))
      | Some product \<Rightarrow>
          if \<not> is_digital product \<and> inventory_count product < quantity item
          then Inl (InsufficientStock (title product))
          else
            session_items db rest
              (subtotal' + price product * of_int (quantity item),
               totalWeight + weight_or_default product * of_int (quantity item),
               orderItems @
                 [\<lparr>li_productId = prod_id product, li_title = title product,
                   li_price = price product, li_quantity = quantity item,
                   li_category = prod_category product,
                   isDigital = Some (is_digital product)\<rparr>]))"

text \<open>
  The validators of the request; \<open>isEmail\<close> is the validation library's predicate, taken
  as a parameter.
\<close>

definition session_validation :: "(string \<Rightarrow> bool) \<Rightarrow> session_request \<Rightarrow> string list" where
  "session_validation isEmail req =
     (if sr_items req = [] then [''Cart items required''] else []) @
     (if \<not> isEmail (sr_email req) then [''Valid email required''] else [])"

text \<open>
  The handler. \<open>uuid\<close> is the value \<open>uuidv4()\<close> returns and \<open>now\<close> the clock in
  milliseconds; the row expires at \<open>DATE_ADD(NOW(), INTERVAL 1 HOUR)\<close>. The insert fails,
  and the handler answers 500, when the session id is already stored (the column is
  unique) or when an amount is not a number.
\<close>

definition create_session_route ::
  "(string \<Rightarrow> bool) \<Rightarrow> string \<Rightarrow> nat \<Rightarrow> database \<Rightarrow> session_request
     \<Rightarrow> (api_error + session_body) \<times> database" where
  "create_session_route isEmail uuid now db req =
     (if session_validation isEmail req \<noteq> []
      then (Inl (ValidationErrors (session_validation isEmail req)), db)
      else
        let shippingMethod = (case sr_shippingMethod req of None \<Rightarrow> ''standard'' | Some m \<Rightarrow> m);
            sessionId = ''cs_'' @ uuid;
            shippingAddress = sr_shippingAddress req
        in case session_items db (sr_items req) (0, 0, []) of
             Inl e \<Rightarrow> (Inl e, db)
           | Inr (subtotal', totalWeight, orderItems) \<Rightarrow>
               let shipping' = ship_calculate shippingCalculator now
                     \<lparr>s_country = a_country shippingAddress, s_state = a_state shippingAddress,
                      s_weight = Some totalWeight, s_subtotal = Some subtotal',
                      s_method = Some shippingMethod\<rparr>
               in (case q_total shipping' of
                    Num shippingTotal \<Rightarrow>
                      let tax = calculate taxCalculator
                            \<lparr>p_subtotal = subtotal', p_country = a_country shippingAddress,
                             p_state = a_state shippingAddress,
                             p_postalCode = a_postalCode shippingAddress,
                             p_category = None, p_shipping = Some shippingTotal\<rparr>;
                          total' = js_add (Num (subtotal' + shippingTotal)) (taxAmount tax)
                      in (case (taxAmount tax, total') of
                            (Num taxAmount', Num totalNum) \<Rightarrow>
                              if get_session db sessionId \<noteq> None
                              then (Inl (ServerError ''Failed to create checkout session''), db)
                              else
                                (Inr \<lparr>sb_sessionId = sessionId,
                                      sb_email = sr_email req,
                                      sb_items = orderItems,
                                      sb_shippingAddress = shippingAddress,
                                      sb_shipping =
                                        \<lparr>sh_method = shippingMethod,
                                         sh_methodName = methodName shipping',
                                         sh_cost = q_total shipping',
                                         sh_deliveryEstimate = deliveryEstimate shipping'\<rparr>,
                                      sb_tax =
                                        \<lparr>ct_rate = taxRate tax, ct_amount = taxAmount tax,
                                         ct_breakdown = breakdown tax,
                                         ct_jurisdiction = jurisdiction tax\<rparr>,
                                      sb_subtotal = round2 subtotal',
                                      sb_total = js_round2 total',
                                      expiresAt = now + 3600000\<rparr>,
                                 db\<lparr>checkout_sessions := checkout_sessions db @
                                      [\<lparr>session_id = sessionId,
                                        ss_email = sr_email req,
                                        ss_items = orderItems,
                                        shipping_address = shippingAddress,
                                        billing_address =
                                          (case sr_billingAddress req of
                                             None \<Rightarrow> shippingAddress | Some b \<Rightarrow> b),
                                        ss_subtotal = subtotal',
                                        shipping_cost = shippingTotal,
                                        shipping_method = shippingMethod,
                                        tax_amount = taxAmount',
                                        ss_total = totalNum,
                                        expires_at = now div 1000 + 3600\<rparr>]\<rparr>)
                          | _ \<Rightarrow> (Inl (ServerError ''Failed to create checkout session''), db))
                  | _ \<Rightarrow> (Inl (ServerError ''Failed to create checkout session''), db)))"

section \<open>Order confirmation mail (utils/email.js)\<close>

record mail =
  m_to :: string
  m_subject :: string
  m_items :: "line_item list"
  m_subtotal :: real
  m_shipping :: real
  m_total :: real

text \<open>
  \<open>sendEmail\<close>: the transporter resolves with a message id (\<open>Inr\<close>) or rejects
  (\<open>Inl\<close>); a rejection is caught, logged and returned as \<open>{ success: false }\<close>.
\<close>

record send_result =
  success :: bool
  messageId :: "string option"
  send_error :: "string option"

definition sendEmail :: "(mail \<Rightarrow> string + string) \<Rightarrow> mail \<Rightarrow> send_result" where
  "sendEmail transporter m =
     (case transporter m of
        Inr mid \<Rightarrow> \<lparr>success = True, messageId = Some mid, send_error = None\<rparr>
      | Inl err \<Rightarrow> \<lparr>success = False, messageId = None, send_error = Some err\<rparr>)"

text \<open>The argument object the completion handler builds for \<open>sendOrderConfirmation\<close>.\<close>

record confirmation =
  cf_order_number :: string
  cf_customer_email :: string
  cf_customer_name :: string
  cf_items :: "line_item list"
  cf_subtotal :: jsdec
  cf_shipping :: jsdec
  cf_tax :: jsdec
  cf_total :: jsdec

text \<open>\<open>x.toFixed(2)\<close>: a number has the method; on a string the call throws a TypeError.\<close>

datatype js_exception = TypeError

fun toFixed :: "jsdec \<Rightarrow> js_exception + real" where
  "toFixed (DecNum x) = Inr x"
| "toFixed (DecStr x) = Inl TypeError"

text \<open>
  \<open>sendOrderConfirmation\<close>: the text of the mail is built first, outside the
  \<open>try\<close> of \<open>sendEmail\<close>, so an exception there leaves the function.
\<close>

definition sendOrderConfirmation ::
  "(mail \<Rightarrow> string + string) \<Rightarrow> confirmation \<Rightarrow> js_exception + send_result" where
  "sendOrderConfirmation transporter order =
     (case toFixed (cf_subtotal order) of
        Inl e \<Rightarrow> Inl e
      | Inr subtotal' \<Rightarrow>
          (case toFixed (cf_shipping order) of
             Inl e \<Rightarrow> Inl e
           | Inr shipping' \<Rightarrow>
               (case toFixed (cf_total order) of
                  Inl e \<Rightarrow> Inl e
                | Inr total' \<Rightarrow>
                    Inr (sendEmail transporter
                           \<lparr>m_to = cf_customer_email order,
                            m_subject = ''Order Confirmation #'' @ cf_order_number order,
                            m_items = cf_items order,
                            m_subtotal = subtotal',
                            m_shipping = shipping',
                            m_total = total'\<rparr>))))"

subsection \<open>POST /complete\<close>

record complete_request =
  cr_sessionId :: string
  cr_paymentIntentId :: "string option"
  cr_customerName :: string
  cr_phone :: "string option"

record complete_order =
  co_orderNumber :: string
  co_email :: string
  co_total :: jsdec
  co_items :: "line_item list"

record complete_body =
  cp_success :: bool
  cp_orderNumber :: string
  cp_message :: string
  cp_order :: complete_order

definition complete_validation :: "complete_request \<Rightarrow> string list" where
  "complete_validation req =
     (if cr_sessionId req = [] then [''Session ID required''] else []) @
     (if cr_customerName req = [] then [''Customer name required''] else [])"

text \<open>\<open>x || null\<close> on an optional string: the empty string is falsy.\<close>

definition or_null :: "string option \<Rightarrow> string option" where
  "or_null x = (case x of None \<Rightarrow> None | Some s \<Rightarrow> if s = [] then None else Some s)"

text \<open>The inventory loop: every item that is not digital is decremented by its quantity.\<close>

fun update_inventory :: "line_item list \<Rightarrow> database \<Rightarrow> database" where
  "update_inventory [] db = db"
| "update_inventory (item # rest) db =
     (if isDigital item \<noteq> Some True
      then update_inventory rest (decrement_stock (li_quantity item) (li_productId item) db)
      else update_inventory rest db)"

text \<open>
  The handler. \<open>uuid\<close> is the value \<open>uuidv4()\<close> returns, \<open>now\<close> the clock in
  milliseconds and \<open>transporter\<close> the mail transport. The statements run one after the
  other with no transaction around them, so what was written before an exception stays
  written; the \<open>catch\<close> of the handler answers 500. The insert of the order fails when
  the order number is already stored (the column is unique).
\<close>

definition complete_route ::
  "(mail \<Rightarrow> string + string) \<Rightarrow> string \<Rightarrow> nat \<Rightarrow> database \<Rightarrow> complete_request
     \<Rightarrow> (api_error + complete_body) \<times> database" where
  "complete_route transporter uuid now db req =
     (if complete_validation req \<noteq> []
      then (Inl (ValidationErrors (complete_validation req)), db)
      else
        case get_session db (cr_sessionId req) of
          None \<Rightarrow> (Inl SessionNotFound, db)
        | Some session \<Rightarrow>
            let orderNumber = ''WXC-'' @ toUpperCase (take 8 uuid) in
            if orderNumber \<in> order_number ` set (orders db)
            then (Inl (ServerError ''Failed to complete order''), db)
            else
              let db1 = db\<lparr>orders := orders db @
                          [\<lparr>order_number = orderNumber,
                            customer_email = ss_email session,
                            customer_name = cr_customerName req,
                            customer_phone = or_null (cr_phone req),
                            o_shipping_address = shipping_address session,
                            o_billing_address = billing_address session,
                            o_items = ss_items session,
                            o_subtotal = read_decimal db (ss_subtotal session),
                            o_shipping = read_decimal db (shipping_cost session),
                            o_tax = read_decimal db (tax_amount session),
                            o_total = read_decimal db (ss_total session),
                            o_shipping_method = shipping_method session,
                            payment_intent_id = or_null (cr_paymentIntentId req),
                            status = ''paid''\<rparr>]\<rparr>;
                  items = ss_items session;
                  db2 = update_inventory items db1;
                  db3 = delete_session (cr_sessionId req) db2
              in (case sendOrderConfirmation transporter
                        \<lparr>cf_order_number = orderNumber,
                         cf_customer_email = ss_email session,
                         cf_customer_name = cr_customerName req,
                         cf_items = ss_items session,
                         cf_subtotal = read_decimal db (ss_subtotal session),
                         cf_shipping = read_decimal db (shipping_cost session),
                         cf_tax = read_decimal db (tax_amount session),
                         cf_total = read_decimal db (ss_total session)\<rparr> of
                   Inl e \<Rightarrow> (Inl (ServerError ''Failed to complete order''), db3)
                 | Inr sent \<Rightarrow>
                     (Inr \<lparr>cp_success = True,
                           cp_orderNumber = orderNumber,
                           cp_message = ''Order placed successfully!'',
                           cp_order =
                             \<lparr>co_orderNumber = orderNumber,
                              co_email = ss_email session,
                              co_total = read_decimal db (ss_total session),
                              co_items = items\<rparr>\<rparr>, db3)))"

section \<open>Notions used in the statements about the tax calculation\<close>











definition order_inherited_category :: tax_params where
  "order_inherited_category = \<lparr>p_subtotal = 100, p_country = ''US'', p_state = Some ''CA'',
      p_postalCode = None, p_category = Some ''constructor'', p_shipping = None\<rparr>"

definition order_default_category :: tax_params where
  "order_default_category = \<lparr>p_subtotal = 100, p_country = ''US'', p_state = Some ''CA'',
      p_postalCode = None, p_category = None, p_shipping = None\<rparr>"

section \<open>Notions used in the statements about shipping quotes\<close>

text \<open>
  The rate a quote is based on: the entry of the method's own table at the zone when the
  rate table of the destination has the method, and the entry of the standard table at
  the zone otherwise.
\<close>

definition table_rate :: "string \<Rightarrow> string option \<Rightarrow> string \<Rightarrow> real option" where
  "table_rate country state m =
     (if country = ''US''
      then (case map_of SHIPPING_RATES_US m of
              Some rates \<Rightarrow> map_of rates (getUSZone state)
            | None \<Rightarrow> map_of US_standard (getUSZone state))
      else (case map_of SHIPPING_RATES_international m of
              Some rates \<Rightarrow> map_of rates (getInternationalZone country)
            | None \<Rightarrow> map_of international_standard (getInternationalZone country)))"

text \<open>The surcharge for the weight above one pound.\<close>

definition surcharge :: "string \<Rightarrow> real \<Rightarrow> real" where
  "surcharge country weight = max 0 (weight - 1) * (if country = ''US'' then 0.50 else 1.50)"




definition quote_overnight_abroad :: shipping_params where
  "quote_overnight_abroad = \<lparr>s_country = ''DE'', s_state = None, s_weight = Some 2,
      s_subtotal = Some 20, s_method = Some ''overnight''\<rparr>"

definition quote_unknown_method :: shipping_params where
  "quote_unknown_method = \<lparr>s_country = ''US'', s_state = Some ''TX'', s_weight = None,
      s_subtotal = None, s_method = Some ''teleport''\<rparr>"

text \<open>Whether the rate table of the destination has an entry for the method.\<close>

definition has_rate_entry :: "string \<Rightarrow> string \<Rightarrow> bool" where
  "has_rate_entry country m =
     (if country = ''US'' then map_of SHIPPING_RATES_US m \<noteq> None
      else map_of SHIPPING_RATES_international m \<noteq> None)"

text \<open>The rate of the standard method for the zone of the destination.\<close>

definition standard_rate :: "string \<Rightarrow> string option \<Rightarrow> real option" where
  "standard_rate country state =
     (if country = ''US'' then map_of US_standard (getUSZone state)
      else map_of international_standard (getInternationalZone country))"

text \<open>A calculator built with \<open>freeShippingEnabled: false\<close>.\<close>

definition no_free_shipping :: shipping_calculator where
  "no_free_shipping = \<lparr>freeShippingEnabled = False, handlingFee = 0\<rparr>"

section \<open>Notions used in the statements about the checkout routes\<close>

text \<open>A response with the two dates of the delivery estimate blanked.\<close>

definition without_dates :: "api_error + calc_body \<Rightarrow> api_error + calc_body" where
  "without_dates r =
     (case r of
        Inl e \<Rightarrow> Inl e
      | Inr b \<Rightarrow>
          Inr (b\<lparr>cb_shipping := (cb_shipping b)
                 \<lparr>cs_deliveryEstimate :=
                    (cs_deliveryEstimate (cb_shipping b))\<lparr>minDate := 0, maxDate := 0\<rparr>\<rparr>\<rparr>))"

text \<open>The first date of the delivery estimate of a response.\<close>

definition min_date_of :: "api_error + calc_body \<Rightarrow> nat option" where
  "min_date_of r =
     (case r of Inl e \<Rightarrow> None | Inr b \<Rightarrow> Some (minDate (cs_deliveryEstimate (cb_shipping b))))"

text \<open>A catalogue with one product, and a cart request for it.\<close>

definition shop_db :: database where
  "shop_db =
     \<lparr>products =
        [\<lparr>prod_id = 1, title = ''Neon Rebel Hoodie'', price = 65, prod_category = ''apparel'',
          prod_weight = None, inventory_count = 50, is_digital = False, is_active = True\<rparr>],
      checkout_sessions = [], orders = [], decimalNumbers = False\<rparr>"

definition cart_request :: calc_request where
  "cart_request =
     \<lparr>c_items = [\<lparr>productId = 1, quantity = 1\<rparr>], c_country = ''US'', c_state = Some ''CA'',
      c_postalCode = Some ''90001'', c_shippingMethod = Some ''overnight''\<rparr>"

text \<open>An address in California and the line items of an order of one hoodie.\<close>

definition home :: address where
  "home = \<lparr>line1 = ''1 Main St'', city = ''Los Angeles'', a_state = Some ''CA'',
      a_postalCode = Some ''90001'', a_country = ''US''\<rparr>"

definition hoodies :: "line_item list" where
  "hoodies = [\<lparr>li_productId = 1, li_title = ''Neon Rebel Hoodie'', li_price = 65,
      li_quantity = 1, li_category = ''apparel'', isDigital = Some False\<rparr>]"

text \<open>
  The checkout session that \<open>/create-session\<close> stores at clock 0 for a hoodie sent to
  California (it expires at second 3600), and a database that holds it. The argument of
  the database is the pool's \<open>decimalNumbers\<close> option.
\<close>

definition stored_session :: session_row where
  "stored_session =
     \<lparr>session_id = ''cs_u1'', ss_email = ''fan@example.com'', ss_items = hoodies,
      shipping_address = home, billing_address = home, ss_subtotal = 65,
      shipping_cost = 5.99, shipping_method = ''standard'', tax_amount = 4.71,
      ss_total = 75.7, expires_at = 3600\<rparr>"

definition session_db :: "bool \<Rightarrow> database" where
  "session_db dn = shop_db\<lparr>checkout_sessions := [stored_session], decimalNumbers := dn\<rparr>"

text \<open>The requests that create and complete the stored session.\<close>

definition session_request :: session_request where
  "session_request =
     \<lparr>sr_items = [\<lparr>productId = 1, quantity = 1\<rparr>], sr_email = ''fan@example.com'',
      sr_shippingAddress = home, sr_billingAddress = None, sr_shippingMethod = None\<rparr>"

definition complete_request :: complete_request where
  "complete_request =
     \<lparr>cr_sessionId = ''cs_u1'', cr_paymentIntentId = Some ''pi_1'', cr_customerName = ''Ann'',
      cr_phone = None\<rparr>"

text \<open>The order the completion of the stored session inserts.\<close>

definition placed_order :: "bool \<Rightarrow> order_row" where
  "placed_order dn =
     \<lparr>order_number = ''WXC-9F8E7D6C'', customer_email = ''fan@example.com'',
      customer_name = ''Ann'', customer_phone = None, o_shipping_address = home,
      o_billing_address = home, o_items = hoodies,
      o_subtotal = (if dn then DecNum 65 else DecStr 65),
      o_shipping = (if dn then DecNum 5.99 else DecStr 5.99),
      o_tax = (if dn then DecNum 4.71 else DecStr 4.71),
      o_total = (if dn then DecNum 75.7 else DecStr 75.7),
      o_shipping_method = ''standard'', payment_intent_id = Some ''pi_1'', status = ''paid''\<rparr>"

text \<open>A mail transport that delivers, and one that rejects every mail.\<close>

definition delivering :: "mail \<Rightarrow> string + string" where
  "delivering m = Inr ''message-1''"

definition rejecting :: "mail \<Rightarrow> string + string" where
  "rejecting m = Inl ''connection refused''"

text \<open>A value of \<open>uuidv4()\<close>, and an email validator that accepts every address.\<close>

definition order_uuid :: string where
  "order_uuid = ''9f8e7d6c-0000-4000-8000-000000000000''"

definition any_email :: "string \<Rightarrow> bool" where
  "any_email e = True"

section \<open>Properties of the lookups\<close>





lemma js_get_Some: "map_of table k = Some v \<Longrightarrow> js_get table k = Own v"
  by (simp add: js_get_def)

lemma js_get_None:
  "map_of table k = None \<Longrightarrow>
   js_get table k = (if k \<in> set object_prototype_keys then Inherited else Missing)"
  by (simp add: js_get_def)



lemma configured_category:
  assumes "map_of TAX_CATEGORIES c = Some info"
  shows "taxable info \<and> c \<notin> set object_prototype_keys"
proof -
  have "(c, info) \<in> set TAX_CATEGORIES"
    using assms by (rule map_of_SomeD)
  then show ?thesis
    by (auto simp add: TAX_CATEGORIES_def object_prototype_keys_def)
qed

lemma apparel_entry:
  "js_get TAX_CATEGORIES ''apparel'' = Own \<lparr>taxable = True, reducedRate = False\<rparr>"
  by (simp add: js_get_def TAX_CATEGORIES_def)

lemma category_taxable_iff: "category_taxable c \<longleftrightarrow> c \<notin> set object_prototype_keys"
proof (cases "map_of TAX_CATEGORIES c")
  case None
  then show ?thesis
    by (simp add: category_taxable_def js_get_None apparel_entry del: set_simps)
next
  case (Some info)
  then show ?thesis
    using configured_category [OF Some]
    by (simp add: category_taxable_def js_get_Some del: set_simps)
qed




section \<open>The branches of the tax calculation\<close>




lemma round2_zero: "round2 0 = 0"
  by (simp add: round2_def)

section \<open>US sales tax\<close>






section \<open>Canadian tax\<close>





section \<open>The invariant of the tax result\<close>





section \<open>The category gate\<close>

text \<open>
  Claim C10 says that every category absent from the table counts as \<open>apparel\<close> and
  that the early return of the category gate cannot be reached. The lemma
  \<open>category_taxable_iff\<close> above gives what the code does: the gate passes exactly for the
  categories that are not names inherited from \<open>Object.prototype\<close>. For the category
  \<open>constructor\<close> the lookup finds the inherited member, the early return is taken and the
  tax is 0, where the same order with the default category is taxed 7.25.
\<close>

theorem category_gate_inherited_name:
  "\<not> category_taxable ''constructor''
   \<and> taxAmount (calculate taxCalculator order_inherited_category) = Num 0
   \<and> breakdown (calculate taxCalculator order_inherited_category) = []
   \<and> taxAmount (calculate taxCalculator order_default_category) = Num 7.25"
proof -
  have a: "\<not> category_taxable ''constructor''"
    by (simp add: category_taxable_iff object_prototype_keys_def)
  have b: "calculate taxCalculator order_inherited_category =
      \<lparr>subtotal = 100, shipping = 0, taxableAmount = 100, taxRate = Num 0,
       taxAmount = Num 0, total = Num 100, breakdown = [], jurisdiction = None\<rparr>"
    by code_simp
  have c: "taxAmount (calculate taxCalculator order_default_category) = Num 7.25"
    by code_simp
  show ?thesis
    by (simp add: a b c)
qed

section \<open>Zones and base rates\<close>

lemma find_zone_in: "find_zone zs code = Some z \<Longrightarrow> z \<in> fst ` set zs"
  by (induction zs) (auto split: if_splits)

lemma us_zone_range: "getUSZone state \<in> {1, 2, 3, 4, 5, 6}"
proof (cases "find_zone US_SHIPPING_ZONES (opt_upper state)")
  case None
  then show ?thesis
    by (simp add: getUSZone_def)
next
  case (Some z)
  then have "z \<in> fst ` set US_SHIPPING_ZONES"
    by (rule find_zone_in)
  then have "z \<in> {1, 2, 3, 4, 5, 6}"
    by (simp add: US_SHIPPING_ZONES_def)
  with Some show ?thesis
    by (simp add: getUSZone_def)
qed

lemma international_zone_range: "getInternationalZone country \<in> {''A'', ''B'', ''C'', ''D'', ''E''}"
proof (cases "find_zone INTERNATIONAL_ZONES (opt_upper (Some country))")
  case None
  then show ?thesis
    by (simp add: getInternationalZone_def)
next
  case (Some z)
  then have "z \<in> fst ` set INTERNATIONAL_ZONES"
    by (rule find_zone_in)
  then have "z \<in> {''A'', ''B'', ''C'', ''D'', ''E''}"
    by (simp add: INTERNATIONAL_ZONES_def)
  with Some show ?thesis
    by (simp add: getInternationalZone_def)
qed

lemma us_table_entries:
  assumes "z \<in> {1, 2, 3, 4, 5, 6}" and "rates \<in> {US_standard, US_express, US_overnight}"
  shows "case map_of rates z of Some r \<Rightarrow> 0 < r | None \<Rightarrow> False"
  using assms by (auto simp add: US_standard_def US_express_def US_overnight_def)

lemma us_table_complete:
  assumes "z \<in> {1, 2, 3, 4, 5, 6}" and "rates \<in> {US_standard, US_express, US_overnight}"
  shows "\<exists>r. map_of rates z = Some r \<and> 0 < r"
  using us_table_entries [OF assms] by (cases "map_of rates z") simp_all

lemma international_table_entries:
  assumes "z \<in> {''A'', ''B'', ''C'', ''D'', ''E''}"
    and "rates \<in> {international_standard, international_express}"
  shows "case map_of rates z of Some r \<Rightarrow> 0 < r | None \<Rightarrow> False"
  using assms by (auto simp add: international_standard_def international_express_def)

lemma international_table_complete:
  assumes "z \<in> {''A'', ''B'', ''C'', ''D'', ''E''}"
    and "rates \<in> {international_standard, international_express}"
  shows "\<exists>r. map_of rates z = Some r \<and> 0 < r"
  using international_table_entries [OF assms] by (cases "map_of rates z") simp_all

lemma us_method_tables:
  "map_of SHIPPING_RATES_US m = Some rates \<Longrightarrow> rates \<in> {US_standard, US_express, US_overnight}"
  by (auto simp add: SHIPPING_RATES_US_def split: if_splits)

lemma international_method_tables:
  "map_of SHIPPING_RATES_international m = Some rates \<Longrightarrow>
   rates \<in> {international_standard, international_express}"
  by (auto simp add: SHIPPING_RATES_international_def split: if_splits)

lemma us_standard_entry: "map_of SHIPPING_RATES_US ''standard'' = Some US_standard"
  by (simp add: SHIPPING_RATES_US_def)

lemma international_standard_entry:
  "map_of SHIPPING_RATES_international ''standard'' = Some international_standard"
  by (simp add: SHIPPING_RATES_international_def)

lemma rate_of_own:
  "map_of table m = Some rates \<Longrightarrow> map_of rates z = Some r \<Longrightarrow> rate_of table m z = Num r"
  by (simp add: rate_of_def js_get_def)

lemma rate_of_absent: "map_of table m = None \<Longrightarrow> rate_of table m z = Undefined"
  by (simp add: rate_of_def js_get_def)

text \<open>The base rate of the source is the rate of the table, a positive number.\<close>

lemma us_base_rate:
  "\<exists>b. table_rate ''US'' state m = Some b \<and> 0 < b
     \<and> js_or (rate_of SHIPPING_RATES_US m (getUSZone state))
              (rate_of SHIPPING_RATES_US ''standard'' (getUSZone state)) = Num b"
proof (cases "map_of SHIPPING_RATES_US m")
  case None
  obtain r where r: "map_of US_standard (getUSZone state) = Some r" "0 < r"
    using us_table_complete [OF us_zone_range, of US_standard] by auto
  with None show ?thesis
    by (simp add: table_rate_def rate_of_absent rate_of_own [OF us_standard_entry] js_or_def)
next
  case (Some rates)
  then obtain r where r: "map_of rates (getUSZone state) = Some r" "0 < r"
    using us_table_complete [OF us_zone_range us_method_tables] by blast
  with Some show ?thesis
    by (simp add: table_rate_def rate_of_own js_or_def)
qed

lemma international_base_rate:
  assumes "country \<noteq> ''US''"
  shows "\<exists>b. table_rate country state m = Some b \<and> 0 < b
     \<and> js_or (rate_of SHIPPING_RATES_international m (getInternationalZone country))
              (rate_of SHIPPING_RATES_international ''standard'' (getInternationalZone country))
         = Num b"
proof (cases "map_of SHIPPING_RATES_international m")
  case None
  obtain r where r: "map_of international_standard (getInternationalZone country) = Some r" "0 < r"
    using international_table_complete [OF international_zone_range, of international_standard]
    by auto
  with None assms show ?thesis
    by (simp add: table_rate_def rate_of_absent rate_of_own [OF international_standard_entry]
        js_or_def)
next
  case (Some rates)
  then obtain r where r: "map_of rates (getInternationalZone country) = Some r" "0 < r"
    using international_table_complete [OF international_zone_range international_method_tables]
    by blast
  with Some assms show ?thesis
    by (simp add: table_rate_def rate_of_own js_or_def)
qed

lemma eligible_method:
  "eligible (checkFreeShipping this country sub m) \<Longrightarrow>
   fs_method (checkFreeShipping this country sub m) = Some ''standard''"
  by (auto simp add: checkFreeShipping_def Let_def FREE_SHIPPING_US_method_def
      FREE_SHIPPING_international_method_def split: if_splits)

lemma ship_calculate_fields:
  "baseRate (ship_calculate this today p) =
     (if s_country p = ''US''
      then js_or (rate_of SHIPPING_RATES_US (method_of p) (getUSZone (s_state p)))
                 (rate_of SHIPPING_RATES_US ''standard'' (getUSZone (s_state p)))
      else js_or (rate_of SHIPPING_RATES_international (method_of p)
                    (getInternationalZone (s_country p)))
                 (rate_of SHIPPING_RATES_international ''standard''
                    (getInternationalZone (s_country p))))"
  "weightSurcharge (ship_calculate this today p) = surcharge (s_country p) (weight_of p)"
  "q_handlingFee (ship_calculate this today p) = handlingFee this"
  "freeShipping (ship_calculate this today p) =
     checkFreeShipping this (s_country p) (subtotal_of p) (method_of p)"
  "q_method (ship_calculate this today p) = method_of p"
  by (simp_all add: ship_calculate_def Let_def surcharge_def WEIGHT_SURCHARGES_US_def
      WEIGHT_SURCHARGES_international_def)

lemma ship_calculate_total:
  "q_total (ship_calculate this today p) =
     js_round2
       (if eligible (checkFreeShipping this (s_country p) (subtotal_of p) (method_of p))
           \<and> method_of p = ''standard''
        then Num 0
        else js_add (js_add (baseRate (ship_calculate this today p))
                            (Num (surcharge (s_country p) (weight_of p))))
                    (Num (handlingFee this)))"
proof (cases "eligible (checkFreeShipping this (s_country p) (subtotal_of p) (method_of p))")
  case True
  then show ?thesis
    using eligible_method [OF True]
    by (auto simp add: ship_calculate_def Let_def surcharge_def WEIGHT_SURCHARGES_US_def
        WEIGHT_SURCHARGES_international_def)
next
  case False
  then show ?thesis
    by (simp add: ship_calculate_def Let_def surcharge_def WEIGHT_SURCHARGES_US_def
        WEIGHT_SURCHARGES_international_def)
qed

lemma base_rate_number:
  "\<exists>b. table_rate (s_country p) (s_state p) (method_of p) = Some b \<and> 0 < b
     \<and> baseRate (ship_calculate this today p) = Num b"
proof (cases "s_country p = ''US''")
  case True
  then show ?thesis
    using us_base_rate [of "s_state p" "method_of p"]
    by (simp add: ship_calculate_fields)
next
  case False
  then show ?thesis
    using international_base_rate [OF False, of "s_state p" "method_of p"]
    by (simp add: ship_calculate_fields)
qed


lemma ship_total_number: "\<exists>t. q_total (ship_calculate this today p) = Num t"
proof -
  obtain b where "baseRate (ship_calculate this today p) = Num b"
    using base_rate_number by blast
  then show ?thesis
    by (simp add: ship_calculate_total)
qed

lemma quote_for_rate:
  assumes "table_rate (s_country p) (s_state p) (method_of p) = Some b"
  shows "baseRate (ship_calculate this today p) = Num b"
    and "q_total (ship_calculate this today p) =
      (if eligible (checkFreeShipping this (s_country p) (subtotal_of p) (method_of p))
          \<and> method_of p = ''standard''
       then Num 0
       else Num (round2 (b + surcharge (s_country p) (weight_of p) + handlingFee this)))"
proof -
  show base: "baseRate (ship_calculate this today p) = Num b"
    using base_rate_number [of p this today] assms by auto
  show "q_total (ship_calculate this today p) =
      (if eligible (checkFreeShipping this (s_country p) (subtotal_of p) (method_of p))
          \<and> method_of p = ''standard''
       then Num 0
       else Num (round2 (b + surcharge (s_country p) (weight_of p) + handlingFee this)))"
    by (auto simp add: ship_calculate_total [of this today p] base round2_zero)
qed

section \<open>The total of a quote\<close>




section \<open>Methods without a rate table\<close>

text \<open>
  Claim C9. For every method string that has no entry in the rate table of the
  destination, \<open>calculate\<close> still returns a quote: its base rate is the standard
  method's rate for the computed zone, and its total is a number.
\<close>

theorem ship_method_fallback:
  assumes "\<not> has_rate_entry (s_country p) (method_of p)"
  shows "\<exists>r t. standard_rate (s_country p) (s_state p) = Some r
     \<and> baseRate (ship_calculate this today p) = Num r
     \<and> q_total (ship_calculate this today p) = Num t"
proof -
  obtain b where b: "table_rate (s_country p) (s_state p) (method_of p) = Some b"
      "baseRate (ship_calculate this today p) = Num b"
    using base_rate_number by blast
  obtain t where t: "q_total (ship_calculate this today p) = Num t"
    using ship_total_number by blast
  have "standard_rate (s_country p) (s_state p) = Some b"
    using assms b(1)
    by (simp add: has_rate_entry_def table_rate_def standard_rate_def split: if_splits)
  with b(2) t show ?thesis
    by blast
qed

text \<open>Witness for C9: \<open>overnight\<close> to Germany and an unknown method to Texas.\<close>

theorem ship_method_fallback_witness:
  "\<not> has_rate_entry ''DE'' ''overnight''
   \<and> standard_rate ''DE'' None = Some 19.99
   \<and> baseRate (ship_calculate shippingCalculator 0 quote_overnight_abroad) = Num 19.99
   \<and> \<not> has_rate_entry ''US'' ''teleport''
   \<and> standard_rate ''US'' (Some ''TX'') = Some 7.99
   \<and> baseRate (ship_calculate shippingCalculator 0 quote_unknown_method) = Num 7.99"
proof -
  have a: "\<not> has_rate_entry (s_country quote_overnight_abroad) (method_of quote_overnight_abroad)"
    by (simp add: quote_overnight_abroad_def method_of_def has_rate_entry_def
        SHIPPING_RATES_international_def)
  have a': "s_country quote_overnight_abroad = ''DE''" "s_state quote_overnight_abroad = None"
      "method_of quote_overnight_abroad = ''overnight''"
    by (simp_all add: quote_overnight_abroad_def method_of_def)
  have b: "\<not> has_rate_entry (s_country quote_unknown_method) (method_of quote_unknown_method)"
    by (simp add: quote_unknown_method_def method_of_def has_rate_entry_def SHIPPING_RATES_US_def)
  have b': "s_country quote_unknown_method = ''US''" "s_state quote_unknown_method = Some ''TX''"
      "method_of quote_unknown_method = ''teleport''"
    by (simp_all add: quote_unknown_method_def method_of_def)
  have r1: "standard_rate ''DE'' None = Some 19.99"
    by code_simp
  have r2: "standard_rate ''US'' (Some ''TX'') = Some 7.99"
    by code_simp
  have "baseRate (ship_calculate shippingCalculator 0 quote_overnight_abroad) = Num 19.99"
    using ship_method_fallback [OF a, of shippingCalculator 0]
    by (auto simp add: a' r1)
  moreover have "baseRate (ship_calculate shippingCalculator 0 quote_unknown_method) = Num 7.99"
    using ship_method_fallback [OF b, of shippingCalculator 0]
    by (auto simp add: b' r2)
  ultimately show ?thesis
    using a b r1 r2 by (simp add: a' b')
qed

section \<open>Free shipping\<close>


lemma free_shipping_disabled:
  "checkFreeShipping no_free_shipping country sub m =
     \<lparr>eligible = False, threshold = None, fs_method = None,
      amountUntilFree = None, message = None\<rparr>"
  by (simp add: checkFreeShipping_def no_free_shipping_def)


section \<open>Quoting an order twice\<close>

lemma overnight_ca:
  "deliveryEstimate (ship_calculate this now
      \<lparr>s_country = ''US'', s_state = Some ''CA'', s_weight = w, s_subtotal = s,
       s_method = Some ''overnight''\<rparr>)
   = getDeliveryEstimate now (1, 1)"
  by (simp add: ship_calculate_def Let_def method_of_def info_estimatedDays_def js_get_def
      SHIPPING_METHODS_def)

lemma one_day_thursday: "addBusinessDays 0 1 = 86400000" "addBusinessDays 1 1 = 86400001"
  by (simp_all add: addBusinessDays_def getDay_def msPerDay_def Let_def)

lemma ship_calculate_clock:
  "q_total (ship_calculate this t p) = q_total (ship_calculate this t' p)"
  "q_method (ship_calculate this t p) = q_method (ship_calculate this t' p)"
  "methodName (ship_calculate this t p) = methodName (ship_calculate this t' p)"
  "freeShipping (ship_calculate this t p) = freeShipping (ship_calculate this t' p)"
  "businessDays (deliveryEstimate (ship_calculate this t p)) =
     businessDays (deliveryEstimate (ship_calculate this t' p))"
  by (simp_all add: ship_calculate_def Let_def getDeliveryEstimate_def)

lemma blank_dates:
  fixes d d' :: delivery_estimate
  shows "businessDays d = businessDays d' \<Longrightarrow>
   d\<lparr>minDate := 0, maxDate := 0\<rparr> = d'\<lparr>minDate := 0, maxDate := 0\<rparr>"
  by (cases d, cases d') simp

text \<open>
  Claim C7, amended. \<open>POST /calculate\<close> leaves the database as it found it, and two calls
  with the same request body on the same catalogue give responses that agree in
  everything but the two dates of \<open>shipping.deliveryEstimate\<close>, which are computed from
  the clock at the time of the call; so the responses are identical when both calls read
  the same clock value.
\<close>

theorem calculate_route_requote:
  "snd (calculate_route now db req) = db
   \<and> without_dates (fst (calculate_route now db req)) =
       without_dates (fst (calculate_route now' db req))"
proof (cases "calc_validation req = []")
  case False
  then show ?thesis
    by (simp add: calculate_route_def)
next
  case valid: True
  show ?thesis
  proof (cases "calc_items db (c_items req) (0, 0, [])")
    case (Inl pid)
    with valid show ?thesis
      by (simp add: calculate_route_def)
  next
    case (Inr acc)
    obtain sub w items where acc: "acc = (sub, w, items)"
      by (cases acc) auto
    let ?p = "\<lparr>s_country = c_country req, s_state = c_state req, s_weight = Some w,
        s_subtotal = Some sub,
        s_method = Some (case c_shippingMethod req of None \<Rightarrow> ''standard'' | Some m \<Rightarrow> m)\<rparr>"
    note same = ship_calculate_clock [of shippingCalculator now ?p now']
    have est: "(deliveryEstimate (ship_calculate shippingCalculator now ?p))
          \<lparr>minDate := 0, maxDate := 0\<rparr>
        = (deliveryEstimate (ship_calculate shippingCalculator now' ?p))
          \<lparr>minDate := 0, maxDate := 0\<rparr>"
      using same(5) by (rule blank_dates)
    show ?thesis
    proof (cases "q_total (ship_calculate shippingCalculator now' ?p)")
      case (Num c)
      with valid Inr acc same(1-4) est show ?thesis
        by (simp add: calculate_route_def without_dates_def Let_def)
    qed (use valid Inr acc same(1-4) in
          \<open>simp_all add: calculate_route_def without_dates_def Let_def\<close>)
  qed
qed

text \<open>
  The first date of the estimate for the cart request (an overnight parcel) is one
  business day after the clock.
\<close>

lemma cart_min_date:
  "min_date_of (fst (calculate_route now shop_db cart_request)) = Some (addBusinessDays now 1)"
proof -
  have items: "calc_items shop_db (c_items cart_request) (0, 0, []) =
      Inr (65, 0.5,
        [\<lparr>li_productId = 1, li_title = ''Neon Rebel Hoodie'', li_price = 65, li_quantity = 1,
          li_category = ''apparel'', isDigital = None\<rparr>])"
    by (simp add: shop_db_def cart_request_def get_product_def weight_or_default_def)
  have valid: "calc_validation cart_request = []"
    by (simp add: calc_validation_def cart_request_def)
  have req: "c_country cart_request = ''US''" "c_state cart_request = Some ''CA''"
      "c_shippingMethod cart_request = Some ''overnight''"
    by (simp_all add: cart_request_def)
  obtain t where t: "q_total (ship_calculate shippingCalculator now
      \<lparr>s_country = ''US'', s_state = Some ''CA'', s_weight = Some 0.5, s_subtotal = Some 65,
       s_method = Some ''overnight''\<rparr>) = Num t"
    using ship_total_number by blast
  show ?thesis
    unfolding calculate_route_def valid items req
    using t by (simp add: Let_def min_date_of_def overnight_ca getDeliveryEstimate_def)
qed

text \<open>
  Counterexample to C7 as stated: the same request on the same catalogue, at clock values
  one millisecond apart, gives two different response bodies (the first date of the
  delivery estimate differs).
\<close>

theorem calculate_route_requote_counterexample:
  "min_date_of (fst (calculate_route 0 shop_db cart_request)) = Some 86400000
   \<and> min_date_of (fst (calculate_route 1 shop_db cart_request)) = Some 86400001
   \<and> fst (calculate_route 0 shop_db cart_request) \<noteq> fst (calculate_route 1 shop_db cart_request)"
proof -
  have d0: "min_date_of (fst (calculate_route 0 shop_db cart_request)) = Some 86400000"
    by (simp only: cart_min_date one_day_thursday)
  have d1: "min_date_of (fst (calculate_route 1 shop_db cart_request)) = Some 86400001"
    by (simp only: cart_min_date one_day_thursday)
  have "fst (calculate_route 0 shop_db cart_request) \<noteq> fst (calculate_route 1 shop_db cart_request)"
  proof
    assume "fst (calculate_route 0 shop_db cart_request) = fst (calculate_route 1 shop_db cart_request)"
    then have "min_date_of (fst (calculate_route 0 shop_db cart_request)) =
        min_date_of (fst (calculate_route 1 shop_db cart_request))"
      by simp
    with d0 d1 show False
      by simp
  qed
  with d0 d1 show ?thesis
    by simp
qed

section \<open>Completing an order\<close>

lemma order_number_upper: "''WXC-'' @ toUpperCase (take 8 ''9f8e7d6c-0000-4000-8000-000000000000'') = ''WXC-9F8E7D6C''"
  by code_simp

lemma complete_stored:
  "complete_route T ''9f8e7d6c-0000-4000-8000-000000000000'' now (session_db dn) complete_request =
     (if dn
      then Inr \<lparr>cp_success = True, cp_orderNumber = ''WXC-9F8E7D6C'',
                cp_message = ''Order placed successfully!'',
                cp_order = \<lparr>co_orderNumber = ''WXC-9F8E7D6C'', co_email = ''fan@example.com'',
                            co_total = DecNum 75.7, co_items = hoodies\<rparr>\<rparr>
      else Inl (ServerError ''Failed to complete order''),
      \<lparr>products =
         [\<lparr>prod_id = 1, title = ''Neon Rebel Hoodie'', price = 65, prod_category = ''apparel'',
           prod_weight = None, inventory_count = 49, is_digital = False, is_active = True\<rparr>],
       checkout_sessions = [], orders = [placed_order dn], decimalNumbers = dn\<rparr>)"
  unfolding complete_route_def Let_def order_number_upper
  by (simp add: complete_validation_def complete_request_def get_session_def session_db_def
      shop_db_def stored_session_def hoodies_def or_null_def read_decimal_def
      decrement_stock_def delete_session_def sendOrderConfirmation_def placed_order_def)

lemma session_quote:
  "q_total (ship_calculate shippingCalculator now
      \<lparr>s_country = ''US'', s_state = Some ''CA'', s_weight = Some (1 / 2), s_subtotal = Some 65,
       s_method = Some ''standard''\<rparr>) = Num (599 / 100)"
proof -
  let ?p = "\<lparr>s_country = ''US'', s_state = Some ''CA'', s_weight = Some (1 / 2),
      s_subtotal = Some 65, s_method = Some ''standard''\<rparr>"
  have p: "s_country ?p = ''US''" "s_state ?p = Some ''CA''" "method_of ?p = ''standard''"
      "weight_of ?p = 1 / 2" "subtotal_of ?p = 65"
    by (simp_all add: method_of_def weight_of_def subtotal_of_def)
  have r: "table_rate (s_country ?p) (s_state ?p) (method_of ?p) = Some (599 / 100)"
    unfolding p by code_simp
  have e: "\<not> eligible (checkFreeShipping shippingCalculator ''US'' 65 ''standard'')"
    by (simp add: checkFreeShipping_def shippingCalculator_def FREE_SHIPPING_US_threshold_def)
  have h: "handlingFee shippingCalculator = 0"
    by (simp add: shippingCalculator_def)
  have "q_total (ship_calculate shippingCalculator now ?p) =
      Num (round2 (599 / 100 + surcharge ''US'' (1 / 2) + 0))"
    using quote_for_rate(2) [OF r, of shippingCalculator now] e
    unfolding p h by simp
  then show ?thesis
    by (simp add: surcharge_def round2_def)
qed

lemma session_tax:
  "taxAmount (calculate taxCalculator
      \<lparr>p_subtotal = 65, p_country = ''US'', p_state = Some ''CA'', p_postalCode = Some ''90001'',
       p_category = None, p_shipping = Some (599 / 100)\<rparr>) = Num (471 / 100)"
  by code_simp

text \<open>The stored session is the one the session route creates at clock 0.\<close>

lemma session_created:
  assumes "isEmail ''fan@example.com''"
  shows "snd (create_session_route isEmail ''u1'' 0 (shop_db\<lparr>decimalNumbers := dn\<rparr>)
            session_request) = session_db dn"
proof -
  have items: "session_items (shop_db\<lparr>decimalNumbers := dn\<rparr>) (sr_items session_request)
      (0, 0, []) = Inr (65, 1 / 2, hoodies)"
    by (simp add: shop_db_def session_request_def get_product_def weight_or_default_def
        hoodies_def)
  have valid: "session_validation isEmail session_request = []"
    using assms by (simp add: session_validation_def session_request_def)
  have req: "sr_shippingAddress session_request = home" "sr_shippingMethod session_request = None"
      "sr_billingAddress session_request = None" "sr_email session_request = ''fan@example.com''"
    by (simp_all add: session_request_def)
  have addr: "a_country home = ''US''" "a_state home = Some ''CA''"
      "a_postalCode home = Some ''90001''"
    by (simp_all add: home_def)
  show ?thesis
    unfolding create_session_route_def valid items req
    by (simp add: Let_def addr session_quote session_tax get_session_def session_db_def
        stored_session_def shop_db_def)
qed

lemma complete_route_clock:
  "complete_route T u now db req = complete_route T u now' db req"
  by (simp add: complete_route_def)

text \<open>A stored session is found whatever its \<open>expires_at\<close> and whatever the clock.\<close>

lemma stored_session_found:
  assumes "get_session db (cr_sessionId req) = Some s"
  shows "fst (complete_route T u now db req) \<noteq> Inl SessionNotFound"
  using assms
  by (simp add: complete_route_def Let_def split: sum.split)

lemma confirmation_outcome:
  "(\<exists>e. sendOrderConfirmation T order = Inl e) \<longleftrightarrow>
   (\<exists>e. sendOrderConfirmation T' order = Inl e)"
  by (simp add: sendOrderConfirmation_def split: sum.split)

text \<open>
  What the transport does with the mail changes neither the response nor the database: a
  rejected mail is caught inside \<open>sendEmail\<close>.
\<close>

lemma transport_outcome_ignored:
  "complete_route T u now db req = complete_route T' u now db req"
proof -
  have "(case sendOrderConfirmation T order of Inl e \<Rightarrow> a | Inr sent \<Rightarrow> b) =
      (case sendOrderConfirmation T' order of Inl e \<Rightarrow> a | Inr sent \<Rightarrow> b)" for order a
      and b :: "(api_error + complete_body) \<times> database"
    using confirmation_outcome [of T order T']
    by (auto split: sum.split)
  then show ?thesis
    by (simp add: complete_route_def Let_def split: option.split)
qed

text \<open>
  With \<open>DECIMAL\<close> columns read as numbers the completion of a stored session answers
  200, also when the transport rejects the mail.
\<close>

lemma complete_with_numbers:
  assumes "decimalNumbers db" and "complete_validation req = []"
    and "get_session db (cr_sessionId req) = Some s"
    and "''WXC-'' @ toUpperCase (take 8 u) \<notin> order_number ` set (orders db)"
  shows "http_status (fst (complete_route T u now db req)) = 200"
  using assms
  by (simp add: complete_route_def Let_def sendOrderConfirmation_def read_decimal_def)

lemma rejected_mail_still_succeeds:
  "http_status (fst (complete_route rejecting order_uuid 0 (session_db True) complete_request))
     = 200"
  by (simp add: order_uuid_def complete_stored)

text \<open>
  Claim C1 says that completing a session whose \<open>expiresAt\<close> lies in the past fails with
  \<open>SessionNotFound\<close> and creates no order. The handler selects the session by its id
  alone and never reads \<open>expires_at\<close> or the clock (lemmas \<open>complete_route_clock\<close> and
  \<open>stored_session_found\<close>). Here the session created at clock 0 expires at second 3600;
  completed at second 7200 it is still found and the order is inserted, whichever way the
  \<open>DECIMAL\<close> columns are read; the response is 200 when they are read as numbers.
\<close>

theorem complete_expired_session:
  "snd (create_session_route any_email ''u1'' 0 (shop_db\<lparr>decimalNumbers := True\<rparr>)
          session_request) = session_db True
   \<and> map expires_at (checkout_sessions (session_db True)) = [3600]
   \<and> 3600 < (7200000 :: nat) div 1000
   \<and> http_status (fst (complete_route delivering order_uuid 7200000 (session_db True)
                          complete_request)) = 200
   \<and> orders (snd (complete_route delivering order_uuid 7200000 (session_db True)
                     complete_request)) = [placed_order True]
   \<and> orders (snd (complete_route delivering order_uuid 7200000 (session_db False)
                     complete_request)) = [placed_order False]"
proof -
  have "any_email ''fan@example.com''"
    by (simp add: any_email_def)
  then have "snd (create_session_route any_email ''u1'' 0 (shop_db\<lparr>decimalNumbers := True\<rparr>)
      session_request) = session_db True"
    by (rule session_created)
  moreover have "map expires_at (checkout_sessions (session_db True)) = [3600]"
    by (simp add: session_db_def stored_session_def)
  ultimately show ?thesis
    by (simp add: order_uuid_def complete_stored)
qed

text \<open>
  Claim C8 says that a failure of the confirmation step never fails the completion. A
  rejected mail is indeed caught (lemma \<open>transport_outcome_ignored\<close>), but the text of
  the mail is built outside that \<open>try\<close>: when the session's \<open>DECIMAL\<close> amounts are
  read as strings, \<open>order.subtotal.toFixed\<close> throws, the handler's \<open>catch\<close> answers 500,
  and the order row, the stock decrement and the deletion of the session have already
  been written.
\<close>

theorem complete_notification_throws:
  "fst (complete_route delivering order_uuid 0 (session_db False) complete_request) =
     Inl (ServerError ''Failed to complete order'')
   \<and> http_status (fst (complete_route delivering order_uuid 0 (session_db False)
                          complete_request)) = 500
   \<and> orders (snd (complete_route delivering order_uuid 0 (session_db False)
                     complete_request)) = [placed_order False]
   \<and> map inventory_count (products (snd (complete_route delivering order_uuid 0
                     (session_db False) complete_request))) = [49]
   \<and> checkout_sessions (snd (complete_route delivering order_uuid 0 (session_db False)
                     complete_request)) = []"
  by (simp add: order_uuid_def complete_stored)

end
